theory Spec2Isabelle
  imports Complex_Main
begin

section \<open>TrainMetricsRecorder: data model\<close>

text \<open>
  The development embeds \<^verbatim>\<open>image_classification/utils_ic/fastai_utils.py\<close>, the
  callback class \<^verbatim>\<open>TrainMetricsRecorder\<close>. Mutation of \<^verbatim>\<open>self\<close> is explicit state
  passing over the record \<open>recorder\<close>; every \<^verbatim>\<open>raise\<close>, failed \<^verbatim>\<open>assert\<close> and
  out-of-range read is an \<open>Inl\<close> result. Tensors of a batch are values of a type
  parameter \<open>'t\<close> (moving them to host memory with \<^verbatim>\<open>.cpu()\<close> does not change the
  value). The value of a metric function is a real number. A float of the stats row
  is a \<open>pyfloat\<close>: a real number, negative zero, an infinity or not-a-number; rounding
  of floating-point arithmetic is not part of the model.
\<close>

datatype error =
    AssertionError
  | AttributeError
  | IndexError
  | TypeError
  | ValueError string
  | RuntimeError string

text \<open>
  A Python \<^verbatim>\<open>float\<close> (or the value of a 0-dim tensor): \<open>Finite x\<close> is the number \<open>x\<close>,
  with \<open>Finite 0\<close> the positive zero; \<open>NegZero\<close> is \<^verbatim>\<open>-0.0\<close>; \<open>PosInf\<close>, \<open>NegInf\<close> and
  \<open>NaN\<close> are \<^verbatim>\<open>inf\<close>, \<^verbatim>\<open>-inf\<close> and \<^verbatim>\<open>nan\<close>.
\<close>

datatype pyfloat = Finite real | NegZero | PosInf | NegInf | NaN

text \<open>A value of the stats row: \<^verbatim>\<open>None\<close>, a Python \<^verbatim>\<open>int\<close>, or a float / 0-dim tensor.\<close>

datatype stat = NoneStat | IntStat int | FloatStat pyfloat

text \<open>A metric function \<^verbatim>\<open>fn(input, targs)\<close> with its \<^verbatim>\<open>__name__\<close>; the call may raise.\<close>

record 't metric =
  fn_name :: string
  fn_call :: "'t \<Rightarrow> 't \<Rightarrow> error + real"

text \<open>One subplot (a matplotlib \<^verbatim>\<open>Axes\<close>): the plotted lines with their labels, the
  axis limits and the axis labels.\<close>

record panel =
  lines :: "(string \<times> real list \<times> pyfloat list) list"
  xlim :: "(real \<times> real) option"
  ylim :: "(real \<times> real) option"
  ylabel :: string
  xlabel :: string

text \<open>
  The attributes of \<^verbatim>\<open>self\<close>. \<open>recorder_silent\<close> is \<^verbatim>\<open>self.learn.recorder.silent\<close>,
  \<open>pbar\<close> is the list of rows written to the progress bar's table, \<open>axes\<close> is
  \<open>None\<close> until the figure exists (\<^verbatim>\<open>hasattr(self, 'fig')\<close>), \<open>graphs\<close> is what the
  display handle shows. The buffers \<^verbatim>\<open>self.y\<close> and \<^verbatim>\<open>self.out\<close> are the fields
  \<open>self_y\<close> and \<open>self_out\<close>.

  \<^verbatim>\<open>__init__\<close> creates only \<^verbatim>\<open>n_batch\<close>, \<^verbatim>\<open>show_graph\<close> and \<^verbatim>\<open>silent\<close>. The attributes of
  a run are created by \<^verbatim>\<open>on_train_begin\<close>, the two histories \<^verbatim>\<open>self.train_metrics\<close> and
  \<^verbatim>\<open>self.valid_metrics\<close> last and together. \<open>histories\<close> is \<open>None\<close> as long as they do not
  exist, and then the pair of the training and the validation history. Reading an
  attribute that an object does not have raises \<^verbatim>\<open>AttributeError\<close>.
\<close>

record 't recorder =
  n_batch :: "int option"
  show_graph :: bool
  silent :: bool
  has_metrics :: bool
  has_val :: bool
  recorder_silent :: bool
  pbar :: "string list list"
  names :: "string list"
  metrics_names :: "string list"
  n_epochs :: int
  histories :: "(real list list \<times> stat list list) option"
  start_epoch :: real
  self_y :: "'t list"
  self_out :: "'t list"
  axes :: "panel list option"
  graphs :: "panel list option"

text \<open>The entries of the two histories; there are none while the histories do not exist.\<close>

definition train_metrics :: "'t recorder \<Rightarrow> real list list" where
  "train_metrics s = (case histories s of None \<Rightarrow> [] | Some h \<Rightarrow> fst h)"

definition valid_metrics :: "'t recorder \<Rightarrow> stat list list" where
  "valid_metrics s = (case histories s of None \<Rightarrow> [] | Some h \<Rightarrow> snd h)"

section \<open>Construction and the lifecycle hooks\<close>

text \<open>
  \<^verbatim>\<open>__init__\<close>: \<^verbatim>\<open>if n_batch: assert n_batch > 0\<close>. The guard is Python truthiness: it
  holds for an integer different from zero, and fails for \<^verbatim>\<open>None\<close> and for \<open>0\<close>.
  The new object has no attribute of a run: its histories do not exist, and the other
  fields that stand for attributes of a run hold placeholders, which
  \<^verbatim>\<open>on_train_begin\<close> and \<^verbatim>\<open>on_epoch_begin\<close> overwrite before the host's training loop
  calls the hook that reads them. \<^verbatim>\<open>plot\<close>, \<^verbatim>\<open>last_train_metrics\<close> and
  \<^verbatim>\<open>last_valid_metrics\<close> are public methods that a caller may use at any time, also
  before training; they and \<^verbatim>\<open>on_epoch_end\<close> raise \<^verbatim>\<open>AttributeError\<close> on an object
  whose run attributes do not exist.
\<close>

definition truthy :: "int option \<Rightarrow> bool" where
  "truthy v = (case v of None \<Rightarrow> False | Some k \<Rightarrow> k \<noteq> 0)"

definition new_recorder :: "int option \<Rightarrow> bool \<Rightarrow> bool \<Rightarrow> 't recorder" where
  "new_recorder nb sg sl =
     \<lparr> n_batch = nb, show_graph = sg, silent = sl,
       has_metrics = False, has_val = False, recorder_silent = False,
       pbar = [], names = [], metrics_names = [], n_epochs = 0,
       histories = None, start_epoch = 0,
       self_y = [], self_out = [], axes = None, graphs = None \<rparr>"

definition TrainMetricsRecorder_init ::
  "int option \<Rightarrow> bool \<Rightarrow> bool \<Rightarrow> error + 't recorder" where
  "TrainMetricsRecorder_init nb sg sl =
     (if truthy nb \<and> (case nb of None \<Rightarrow> False | Some k \<Rightarrow> k \<le> 0)
      then Inl AssertionError
      else Inr (new_recorder nb sg sl))"

text \<open>The loop \<^verbatim>\<open>for m in self.metrics_names\<close> of \<^verbatim>\<open>on_train_begin\<close>.\<close>

fun append_metric_names :: "bool \<Rightarrow> string list \<Rightarrow> string list \<Rightarrow> string list" where
  "append_metric_names hv ns [] = ns"
| "append_metric_names hv ns (m # ms) =
     append_metric_names hv
       (if hv then (ns @ [''train_'' @ m]) @ [''valid_'' @ m] else ns @ [''train_'' @ m]) ms"

text \<open>
  \<^verbatim>\<open>on_train_begin\<close>. \<open>pb\<close> is the progress bar handed in by the host, \<open>hv\<close> is
  \<^verbatim>\<open>hasattr(self.learn.data, 'valid_ds')\<close>.
\<close>

definition on_train_begin ::
  "string list list \<Rightarrow> 't metric list \<Rightarrow> int \<Rightarrow> bool \<Rightarrow> 't recorder \<Rightarrow> 't recorder" where
  "on_train_begin pb metrics n_ep hv s =
     (let ns0 = [''epoch'', ''train_loss''];
          ns1 = (if hv then ns0 @ [''valid_loss''] else ns0);
          mns = map fn_name metrics;
          ns2 = append_metric_names hv ns1 mns @ [''time''];
          pb' = (if \<not> silent s then pb @ [ns2] else pb)
      in s\<lparr> has_metrics := (metrics \<noteq> []), has_val := hv, recorder_silent := True,
             pbar := pb', names := ns2, metrics_names := mns, n_epochs := n_ep,
             histories := Some ([], []) \<rparr>)"

text \<open>\<^verbatim>\<open>on_epoch_begin\<close>; \<open>now\<close> is the value of \<^verbatim>\<open>time()\<close>.\<close>

definition on_epoch_begin :: "real \<Rightarrow> 't recorder \<Rightarrow> 't recorder" where
  "on_epoch_begin now s = s\<lparr> start_epoch := now, self_y := [], self_out := [] \<rparr>"

text \<open>\<^verbatim>\<open>on_batch_end\<close>.\<close>

definition on_batch_end :: "bool \<Rightarrow> int \<Rightarrow> 't \<Rightarrow> 't \<Rightarrow> 't recorder \<Rightarrow> 't recorder" where
  "on_batch_end train num_batch last_target last_output s =
     (if train
         \<and> (case n_batch s of None \<Rightarrow> True | Some k \<Rightarrow> k > num_batch)
         \<and> has_metrics s
      then s\<lparr> self_y := self_y s @ [last_target], self_out := self_out s @ [last_output] \<rparr>
      else s)"

text \<open>
  The host's batch loop of one phase of one epoch: it calls \<^verbatim>\<open>on_batch_end\<close> once per
  batch, with \<^verbatim>\<open>num_batch\<close> counting up from the index \<open>i\<close>. A batch is the pair of
  its target and output tensors.
\<close>

fun run_batches :: "bool \<Rightarrow> int \<Rightarrow> ('t \<times> 't) list \<Rightarrow> 't recorder \<Rightarrow> 't recorder" where
  "run_batches train i [] s = s"
| "run_batches train i (b # bs) s =
     run_batches train (i + 1) bs (on_batch_end train i (fst b) (snd b) s)"

section \<open>Formatting the stats row\<close>

text \<open>
  Python's \<^verbatim>\<open>str\<close> of an \<^verbatim>\<open>int\<close>: the decimal digits, with a leading minus sign for a
  negative number.
\<close>

definition digit :: "nat \<Rightarrow> char" where
  "digit d = ''0123456789'' ! (d mod 10)"

fun str_nat :: "nat \<Rightarrow> string" where
  "str_nat n = (if n < 10 then [digit n] else str_nat (n div 10) @ [digit (n mod 10)])"

declare str_nat.simps [simp del]

definition str_int :: "int \<Rightarrow> string" where
  "str_int i = (if i < 0 then ''-'' @ str_nat (nat (- i)) else str_nat (nat i))"

text \<open>
  Python's format specification \<^verbatim>\<open>.6f\<close>. A finite value is rounded to the nearest
  multiple of \<open>10\<^sup>-\<^sup>6\<close>, a tie going to the even neighbour, and printed with its sign,
  its integer part and exactly six fractional digits; the sign of a negative value
  stays when it rounds to zero, and negative zero is printed with its sign. The values
  that are not finite are printed as \<^verbatim>\<open>inf\<close>, \<^verbatim>\<open>-inf\<close> and \<^verbatim>\<open>nan\<close>.
\<close>

definition round_half_even :: "real \<Rightarrow> int" where
  "round_half_even x =
     (let f = \<lfloor>x\<rfloor>; d = x - of_int f
      in if d < 1 / 2 then f
         else if 1 / 2 < d then f + 1
         else if even f then f else f + 1)"

definition pad6 :: "nat \<Rightarrow> string" where
  "pad6 n = [digit (n div 100000), digit (n div 10000), digit (n div 1000),
             digit (n div 100), digit (n div 10), digit n]"

definition format_finite :: "real \<Rightarrow> string" where
  "format_finite x =
     (let q = nat (round_half_even (\<bar>x\<bar> * 1000000))
      in (if x < 0 then ''-'' else []) @ str_nat (q div 1000000) @ ''.'' @ pad6 (q mod 1000000))"

fun format_6f :: "pyfloat \<Rightarrow> string" where
  "format_6f (Finite x) = format_finite x"
| "format_6f NegZero = ''-0.000000''"
| "format_6f PosInf = ''inf''"
| "format_6f NegInf = ''-inf''"
| "format_6f NaN = ''nan''"

text \<open>The conditional expression inside the loop of \<^verbatim>\<open>_format_stats\<close>.\<close>

fun format_stat :: "stat \<Rightarrow> string" where
  "format_stat NoneStat = ''#na#''"
| "format_stat (IntStat i) = str_int i"
| "format_stat (FloatStat x) = format_6f x"

text \<open>
  \<^verbatim>\<open>_format_stats\<close>. The loop runs over \<^verbatim>\<open>zip(self.names, stats)\<close>, so it stops at the
  shorter of the two lists. \<open>format_time\<close> is the function of that name imported from
  \<^verbatim>\<open>fastprogress\<close>, and \<open>now\<close> is the value of \<^verbatim>\<open>time()\<close>.
\<close>

definition format_stats ::
  "(real \<Rightarrow> string) \<Rightarrow> real \<Rightarrow> stat list \<Rightarrow> 't recorder \<Rightarrow> 't recorder" where
  "format_stats format_time now stats s =
     (let str_stats = map (\<lambda>(name, stat). format_stat stat) (zip (names s) stats);
          str_stats' = str_stats @ [format_time (now - start_epoch s)]
      in s\<lparr> pbar := pbar s @ [str_stats'] \<rparr>)"

section \<open>Plotting\<close>

text \<open>Sequencing of steps that may raise: the first error ends the computation.\<close>

definition bind_err :: "error + 'a \<Rightarrow> ('a \<Rightarrow> error + 'b) \<Rightarrow> error + 'b" where
  "bind_err m f = (case m of Inl e \<Rightarrow> Inl e | Inr v \<Rightarrow> f v)"

text \<open>The list comprehension \<^verbatim>\<open>[met[i] for met in history]\<close>; a vector with no entry
  \<open>i\<close> raises \<^verbatim>\<open>IndexError\<close>.\<close>

fun column :: "nat \<Rightarrow> 'a list list \<Rightarrow> error + 'a list" where
  "column i [] = Inr []"
| "column i (met # mets) =
     (if i < length met
      then bind_err (column i mets) (\<lambda>c. Inr (met ! i # c))
      else Inl IndexError)"

text \<open>\<^verbatim>\<open>Tensor(vl_m)\<close>: a tensor of floats cannot be built from a list that holds \<^verbatim>\<open>None\<close>.\<close>

fun to_float :: "stat \<Rightarrow> error + pyfloat" where
  "to_float NoneStat = Inl TypeError"
| "to_float (IntStat i) = Inr (Finite (of_int i))"
| "to_float (FloatStat x) = Inr x"

fun Tensor :: "stat list \<Rightarrow> error + pyfloat list" where
  "Tensor [] = Inr []"
| "Tensor (v # vs) =
     bind_err (to_float v) (\<lambda>x. bind_err (Tensor vs) (\<lambda>xs. Inr (x # xs)))"

text \<open>
  The comparison \<^verbatim>\<open><\<close> of two floats: false whenever one of them is \<^verbatim>\<open>nan\<close>, and the
  two zeros are equal.
\<close>

fun float_lt :: "pyfloat \<Rightarrow> pyfloat \<Rightarrow> bool" where
  "float_lt NaN b = False"
| "float_lt a NaN = False"
| "float_lt PosInf b = False"
| "float_lt a NegInf = False"
| "float_lt NegInf b = True"
| "float_lt a PosInf = True"
| "float_lt (Finite x) (Finite y) = (x < y)"
| "float_lt (Finite x) NegZero = (x < 0)"
| "float_lt NegZero (Finite y) = (0 < y)"
| "float_lt NegZero NegZero = False"

text \<open>
  Python's built-in \<^verbatim>\<open>min\<close> and \<^verbatim>\<open>max\<close>: they start from the first value and replace it
  by a later one that is smaller (greater) under \<^verbatim>\<open><\<close> (\<^verbatim>\<open>>\<close>). \<open>min_of\<close> and \<open>max_of\<close> are
  the calls with several arguments, \<open>py_min\<close> and \<open>py_max\<close> the calls on one iterable,
  which raise \<^verbatim>\<open>ValueError\<close> when it is empty.
\<close>

definition min_of :: "pyfloat \<Rightarrow> pyfloat list \<Rightarrow> pyfloat" where
  "min_of x xs = fold (\<lambda>v acc. if float_lt v acc then v else acc) xs x"

definition max_of :: "pyfloat \<Rightarrow> pyfloat list \<Rightarrow> pyfloat" where
  "max_of x xs = fold (\<lambda>v acc. if float_lt acc v then v else acc) xs x"

fun py_min :: "pyfloat list \<Rightarrow> error + pyfloat" where
  "py_min [] = Inl (ValueError ''min() arg is an empty sequence'')"
| "py_min (x # xs) = Inr (min_of x xs)"

fun py_max :: "pyfloat list \<Rightarrow> error + pyfloat" where
  "py_max [] = Inl (ValueError ''max() arg is an empty sequence'')"
| "py_max (x # xs) = Inr (max_of x xs)"

text \<open>The sum of a float and a non-zero finite constant.\<close>

fun float_add :: "pyfloat \<Rightarrow> real \<Rightarrow> pyfloat" where
  "float_add (Finite x) c = Finite (x + c)"
| "float_add NegZero c = Finite c"
| "float_add PosInf c = PosInf"
| "float_add NegInf c = NegInf"
| "float_add NaN c = NaN"

text \<open>\<^verbatim>\<open>ax.set_ylim\<close>: the plotting library rejects a limit that is not finite.\<close>

fun finite_value :: "pyfloat \<Rightarrow> real option" where
  "finite_value (Finite x) = Some x"
| "finite_value NegZero = Some 0"
| "finite_value PosInf = None"
| "finite_value NegInf = None"
| "finite_value NaN = None"

definition set_ylim :: "pyfloat \<times> pyfloat \<Rightarrow> panel \<Rightarrow> error + panel" where
  "set_ylim bounds ax =
     (case (finite_value (fst bounds), finite_value (snd bounds)) of
        (Some lo, Some hi) \<Rightarrow> Inr (ax\<lparr> ylim := Some (lo, hi) \<rparr>)
      | _ \<Rightarrow> Inl (ValueError ''Axis limits cannot be NaN or Inf''))"

text \<open>\<^verbatim>\<open>ax.clear()\<close> leaves an empty subplot.\<close>

definition clear :: panel where
  "clear = \<lparr> lines = [], xlim = None, ylim = None, ylabel = [], xlabel = [] \<rparr>"

text \<open>
  \<^verbatim>\<open>plt.subplots(n, 1)\<close> followed by the wrapping into a list of \<open>n\<close> axes. The plotting
  library rejects a grid without rows.
\<close>

definition subplots :: "nat \<Rightarrow> error + panel list" where
  "subplots n =
     (if n = 0 then Inl (ValueError ''Number of rows must be a positive integer'')
      else Inr (replicate n clear))"

text \<open>
  The body of the loop \<^verbatim>\<open>for i, ax in enumerate(self.axes)\<close>: the panel of metric \<open>i\<close>
  is cleared and drawn again. \<^verbatim>\<open>ax.plot\<close> rejects a series whose length differs from
  that of \<^verbatim>\<open>x_axis\<close>; a line holds the float values of its points. The two components
  of \<^verbatim>\<open>y_bounds\<close> are evaluated left to right, then the limits are set, then the labels.
\<close>

definition plot_panel :: "'t recorder \<Rightarrow> nat \<Rightarrow> error + panel" where
  "plot_panel s i =
     bind_err (column i (train_metrics s)) (\<lambda>tr_m.
     let x_axis = [0..<length tr_m];
         ax1 = clear\<lparr> lines := [(''Train'', map real x_axis, map Finite tr_m)] \<rparr>
     in
     bind_err
       (if valid_metrics s \<noteq> []
        then bind_err (column i (valid_metrics s)) (\<lambda>vl_m.
               if length vl_m = length x_axis
               then bind_err (Tensor vl_m) (\<lambda>vl.
                      Inr (vl_m, ax1\<lparr> lines := lines ax1 @ [(''Validation'', map real x_axis, vl)] \<rparr>))
               else Inl (ValueError ''x and y must have same first dimension''))
        else Inr ([], ax1)) (\<lambda>(vl_m, ax2).
     bind_err (py_min (map Finite tr_m)) (\<lambda>mn_tr.
     bind_err (Tensor vl_m) (\<lambda>vl.
     bind_err (py_min vl) (\<lambda>mn_vl.
     bind_err (py_max (map Finite tr_m)) (\<lambda>mx_tr.
     bind_err (py_max vl) (\<lambda>mx_vl.
     let x_bounds = (- 0.05, real_of_int (n_epochs s) - 0.95);
         y_bounds = (float_add (min_of (Finite (- 0.05)) [mn_tr, mn_vl]) (- 0.05),
                     float_add (max_of (Finite 1.05) [mx_tr, mx_vl]) 0.05)
     in bind_err (set_ylim y_bounds (ax2\<lparr> xlim := Some x_bounds \<rparr>)) (\<lambda>ax3.
        if i < length (metrics_names s)
        then Inr (ax3\<lparr> ylabel := metrics_names s ! i, xlabel := ''Epochs'' \<rparr>)
        else Inl IndexError))))))))"

fun plot_panels :: "'t recorder \<Rightarrow> nat list \<Rightarrow> error + panel list" where
  "plot_panels s [] = Inr []"
| "plot_panels s (i # is) =
     bind_err (plot_panel s i) (\<lambda>ax. bind_err (plot_panels s is) (\<lambda>axs. Inr (ax # axs)))"

text \<open>
  \<^verbatim>\<open>plot\<close>. Its first step reads \<^verbatim>\<open>self.train_metrics\<close>, which raises
  \<^verbatim>\<open>AttributeError\<close> on a recorder that \<^verbatim>\<open>on_train_begin\<close> has not set up.
\<close>

definition plot :: "'t recorder \<Rightarrow> error + 't recorder" where
  "plot s =
     (if histories s = None then Inl AttributeError else
      case train_metrics s of
        [] \<Rightarrow> Inl (ValueError ''No records to plot.'')
      | tm0 # _ \<Rightarrow>
          if (case valid_metrics s of [] \<Rightarrow> False | vm0 # _ \<Rightarrow> length tm0 \<noteq> length vm0)
          then Inl AssertionError
          else
            bind_err (case axes s of None \<Rightarrow> subplots (length tm0) | Some axs \<Rightarrow> Inr axs) (\<lambda>axs.
            bind_err (plot_panels s [0..<length axs]) (\<lambda>axs'.
            Inr (s\<lparr> axes := Some axs', graphs := Some axs' \<rparr>))))"

text \<open>
  \<^verbatim>\<open>last_train_metrics\<close> and \<^verbatim>\<open>last_valid_metrics\<close>: the index \<open>-1\<close> of the history, an
  attribute that exists only once \<^verbatim>\<open>on_train_begin\<close> has run.
\<close>

definition last_train_metrics :: "'t recorder \<Rightarrow> error + real list" where
  "last_train_metrics s =
     (if histories s = None then Inl AttributeError
      else if train_metrics s = [] then Inl IndexError
      else Inr (last (train_metrics s)))"

definition last_valid_metrics :: "'t recorder \<Rightarrow> error + stat list" where
  "last_valid_metrics s =
     (if histories s = None then Inl AttributeError
      else if valid_metrics s = [] then Inl IndexError
      else Inr (last (valid_metrics s)))"

section \<open>End of an epoch\<close>

text \<open>
  One element of the list comprehension that builds \<^verbatim>\<open>tr_lm\<close>:
  \<^verbatim>\<open>m_fn(torch.stack(self.out), torch.stack(self.y))\<close>. \<open>stack\<close> is \<^verbatim>\<open>torch.stack\<close>,
  which may raise.
\<close>

definition eval_metric ::
  "('t list \<Rightarrow> error + 't) \<Rightarrow> 't recorder \<Rightarrow> 't metric \<Rightarrow> error + real" where
  "eval_metric stack s m_fn =
     bind_err (stack (self_out s)) (\<lambda>so.
     bind_err (stack (self_y s)) (\<lambda>sy. fn_call m_fn so sy))"

fun eval_metrics ::
  "('t list \<Rightarrow> error + 't) \<Rightarrow> 't recorder \<Rightarrow> 't metric list \<Rightarrow> error + real list" where
  "eval_metrics stack s [] = Inr []"
| "eval_metrics stack s (m_fn # ms) =
     bind_err (eval_metric stack s m_fn) (\<lambda>v.
     bind_err (eval_metrics stack s ms) (\<lambda>vs. Inr (v # vs)))"

text \<open>The loop \<^verbatim>\<open>for i in range(len(metrics))\<close> that extends the stats row.\<close>

fun metric_stats ::
  "bool \<Rightarrow> real list \<Rightarrow> stat list \<Rightarrow> nat list \<Rightarrow> stat list \<Rightarrow> error + stat list" where
  "metric_stats hv tr_lm vl_lm [] stats = Inr stats"
| "metric_stats hv tr_lm vl_lm (i # is) stats =
     (if i < length tr_lm
      then (if hv
            then (if i < length vl_lm
                  then metric_stats hv tr_lm vl_lm is ((stats @ [FloatStat (Finite (tr_lm ! i))]) @ [vl_lm ! i])
                  else Inl IndexError)
            else metric_stats hv tr_lm vl_lm is (stats @ [FloatStat (Finite (tr_lm ! i))]))
      else Inl IndexError)"

text \<open>
  \<^verbatim>\<open>on_epoch_end\<close>. Its first statement that reads an attribute of the run,
  \<^verbatim>\<open>self.has_val\<close>, raises \<^verbatim>\<open>AttributeError\<close> on an object without run attributes. An
  exception ends the training run, so the state that a raising call leaves behind is
  not returned.
\<close>

definition on_epoch_end ::
  "('t list \<Rightarrow> error + 't) \<Rightarrow> (real \<Rightarrow> string) \<Rightarrow> real \<Rightarrow>
   int \<Rightarrow> pyfloat \<Rightarrow> 't metric list \<Rightarrow> stat list \<Rightarrow> 't recorder \<Rightarrow> error + 't recorder" where
  "on_epoch_end stack format_time now epoch smooth_loss metrics last_metrics s =
     bind_err
       (if histories s = None then Inl AttributeError
        else if has_val s
        then (case last_metrics of
                [] \<Rightarrow> Inl IndexError
              | v # _ \<Rightarrow> Inr [IntStat epoch, FloatStat smooth_loss, v])
        else Inr [IntStat epoch, FloatStat smooth_loss]) (\<lambda>stats.
     bind_err
       (if has_metrics s
        then bind_err (eval_metrics stack s metrics) (\<lambda>tr_lm.
             let s1 = s\<lparr> histories := Some (train_metrics s @ [tr_lm], valid_metrics s) \<rparr>;
                 vl_lm = drop 1 last_metrics;
                 s2 = (if has_val s
                       then s1\<lparr> histories := Some (train_metrics s1, valid_metrics s1 @ [vl_lm]) \<rparr>
                       else s1)
             in bind_err (metric_stats (has_val s) tr_lm vl_lm [0..<length metrics] stats)
                  (\<lambda>stats'. Inr (stats', s2)))
        else Inr (stats, s)) (\<lambda>(stats', s2).
     if \<not> silent s2
     then (let s3 = format_stats format_time now stats' s2
           in if show_graph s3 \<and> 0 < length (train_metrics s3) then plot s3 else Inr s3)
     else Inr s2))"

text \<open>
  The host's training loop, as far as the recorder sees it: in every epoch
  \<^verbatim>\<open>on_epoch_begin\<close>, the training batches, the validation batches, \<^verbatim>\<open>on_epoch_end\<close>.
\<close>

record 't epoch_run =
  ep_begin :: real
  ep_train :: "('t \<times> 't) list"
  ep_valid :: "('t \<times> 't) list"
  ep_index :: int
  ep_loss :: pyfloat
  ep_last_metrics :: "stat list"
  ep_end :: real

definition run_epoch ::
  "('t list \<Rightarrow> error + 't) \<Rightarrow> (real \<Rightarrow> string) \<Rightarrow> 't metric list \<Rightarrow>
   't epoch_run \<Rightarrow> 't recorder \<Rightarrow> error + 't recorder" where
  "run_epoch stack format_time metrics e s =
     on_epoch_end stack format_time (ep_end e) (ep_index e) (ep_loss e) metrics (ep_last_metrics e)
       (run_batches False 0 (ep_valid e)
          (run_batches True 0 (ep_train e) (on_epoch_begin (ep_begin e) s)))"

fun run_epochs ::
  "('t list \<Rightarrow> error + 't) \<Rightarrow> (real \<Rightarrow> string) \<Rightarrow> 't metric list \<Rightarrow>
   't epoch_run list \<Rightarrow> 't recorder \<Rightarrow> error + 't recorder" where
  "run_epochs stack format_time metrics [] s = Inr s"
| "run_epochs stack format_time metrics (e # es) s =
     bind_err (run_epoch stack format_time metrics e s) (run_epochs stack format_time metrics es)"


section \<open>Reading decimal strings\<close>

text \<open>
  The number that a string of decimal digits denotes. It is used to state what the
  formatter prints; the formatter itself does not use it.
\<close>

definition digit_value :: "char \<Rightarrow> nat" where
  "digit_value c = of_char c - 48"

definition decimal_value :: "string \<Rightarrow> nat" where
  "decimal_value cs = foldl (\<lambda>a c. 10 * a + digit_value c) 0 cs"

section \<open>A concrete training run\<close>

text \<open>
  A small run on which the theorems below are exercised: batch cap 2, one epoch with
  five training batches of two samples each and one validation batch. A tensor is the
  list of its entries, stacking joins the batches, and the metric is the fraction of
  positions where output and target agree.
\<close>

definition example_stack :: "real list list \<Rightarrow> error + real list" where
  "example_stack ts =
     (if ts = [] then Inl (RuntimeError ''stack expects a non-empty TensorList'')
      else Inr (concat ts))"

definition example_accuracy :: "real list metric" where
  "example_accuracy =
     \<lparr> fn_name = ''accuracy'',
       fn_call = (\<lambda>input targs.
         Inr (real (length (filter (\<lambda>p. fst p = snd p) (zip input targs))) / real (length targs))) \<rparr>"

definition example_format_time :: "real \<Rightarrow> string" where
  "example_format_time t = ''00:02''"

definition example_epoch :: "stat list \<Rightarrow> real list epoch_run" where
  "example_epoch lm =
     \<lparr> ep_begin = 10,
       ep_train = [([1, 0], [1, 1]), ([0, 0], [0, 1]), ([1, 1], [0, 0]), ([1, 0], [1, 0]), ([0, 1], [0, 1])],
       ep_valid = [([1, 1], [1, 1])],
       ep_index = 0, ep_loss = Finite 0.25, ep_last_metrics = lm, ep_end = 12 \<rparr>"

definition example_begin :: "real list metric list \<Rightarrow> bool \<Rightarrow> real list recorder" where
  "example_begin metrics hv = on_train_begin [] metrics 1 hv (new_recorder (Some 2) False False)"

definition example_run ::
  "real list metric list \<Rightarrow> bool \<Rightarrow> stat list \<Rightarrow> error + real list recorder" where
  "example_run metrics hv lm =
     run_epochs example_stack example_format_time metrics [example_epoch lm] (example_begin metrics hv)"

text \<open>The state of that run, with validation data, just before \<^verbatim>\<open>on_epoch_end\<close>.\<close>

definition example_batches_done :: "real list recorder" where
  "example_batches_done =
     run_batches False 0 (ep_valid (example_epoch []))
       (run_batches True 0 (ep_train (example_epoch []))
          (on_epoch_begin 10 (example_begin [example_accuracy] True)))"


section \<open>Properties\<close>

subsection \<open>Auxiliary facts\<close>

lemma append_metric_names_eq:
  "append_metric_names hv ns ms =
     ns @ concat (map (\<lambda>m. if hv then [''train_'' @ m, ''valid_'' @ m] else [''train_'' @ m]) ms)"
  by (induction ms arbitrary: ns) simp_all

lemma init_cases:
  "TrainMetricsRecorder_init nb sg sl =
     (case nb of None \<Rightarrow> Inr (new_recorder nb sg sl)
      | Some k \<Rightarrow> if k < 0 then Inl AssertionError else Inr (new_recorder nb sg sl))"
  by (auto simp add: TrainMetricsRecorder_init_def truthy_def split: option.splits)

lemma run_batches_other:
  "n_batch (run_batches tr i bs s) = n_batch s \<and> has_metrics (run_batches tr i bs s) = has_metrics s"
  by (induction bs arbitrary: i s) (simp_all add: on_batch_end_def)

lemma cap_step:
  "i < k \<Longrightarrow> Suc (nat (min (int n) (k - (i + 1)))) = nat (min (1 + int n) (k - i))"
  by arith

lemma cap_done:
  "\<not> i < k \<Longrightarrow> nat (min (int n) (k - (i + 1))) = nat (min (1 + int n) (k - i))"
  by arith

lemma run_batches_length:
  "length (self_y (run_batches tr i bs s)) = length (self_y s) +
     (if tr \<and> has_metrics s then
        (case n_batch s of None \<Rightarrow> length bs
         | Some k \<Rightarrow> nat (min (int (length bs)) (k - i)))
      else 0)"
proof (induction bs arbitrary: i s)
  case Nil
  then show ?case by (simp split: option.splits)
next
  case (Cons b bs)
  show ?case
    by (auto simp add: Cons.IH on_batch_end_def run_batches_other cap_step cap_done split: option.splits) 
qed

lemma run_batches_same_length:
  "length (self_out (run_batches tr i bs s)) - length (self_out s) =
   length (self_y (run_batches tr i bs s)) - length (self_y s)
   \<and> length (self_out s) \<le> length (self_out (run_batches tr i bs s))
   \<and> length (self_y s) \<le> length (self_y (run_batches tr i bs s))"
proof (induction bs arbitrary: i s)
  case Nil
  show ?case by simp
next
  case (Cons b bs)
  from Cons.IH [of "i + 1" "on_batch_end tr i (fst b) (snd b) s"]
  show ?case by (auto simp add: on_batch_end_def split: if_splits)
qed

lemma run_batches_histories: "histories (run_batches tr i bs s) = histories s"
  by (induction bs arbitrary: i s) (simp_all add: on_batch_end_def)

lemma run_batches_fields:
  "train_metrics (run_batches tr i bs s) = train_metrics s
   \<and> valid_metrics (run_batches tr i bs s) = valid_metrics s
   \<and> has_val (run_batches tr i bs s) = has_val s
   \<and> has_metrics (run_batches tr i bs s) = has_metrics s"
proof -
  have "has_val (run_batches tr i bs s) = has_val s
      \<and> has_metrics (run_batches tr i bs s) = has_metrics s"
    by (induction bs arbitrary: i s) (simp_all add: on_batch_end_def)
  then show ?thesis
    by (simp add: train_metrics_def valid_metrics_def run_batches_histories)
qed

lemma bind_err_Inl [simp]: "bind_err (Inl e) f = Inl e"
  by (simp add: bind_err_def)

lemma bind_err_Inr [simp]: "bind_err (Inr v) f = f v"
  by (simp add: bind_err_def)

lemma bind_err_eq_Inr: "bind_err m f = Inr r \<longleftrightarrow> (\<exists>v. m = Inr v \<and> f v = Inr r)"
  by (cases m) simp_all

lemma bind_err_Inl_cases:
  assumes "bind_err m f = Inl e"
  obtains "m = Inl e" | v where "m = Inr v" and "f v = Inl e"
  using assms by (cases m) simp_all

lemmas ex_defs = example_run_def example_begin_def example_batches_done_def example_epoch_def
  example_accuracy_def example_stack_def example_format_time_def
  run_epoch_def on_epoch_end_def on_train_begin_def on_epoch_begin_def on_batch_end_def
  new_recorder_def format_stats_def eval_metric_def train_metrics_def valid_metrics_def Let_def

lemma plot_Inr:
  assumes "plot s = Inr s'"
  shows "histories s \<noteq> None \<and> (\<exists>axs. s' = s\<lparr> axes := Some axs, graphs := Some axs \<rparr>)"
proof (cases "train_metrics s")
  case Nil
  with assms show ?thesis by (simp add: plot_def split: if_splits)
next
  case (Cons tm0 tms)
  with assms show ?thesis
    by (auto simp add: plot_def bind_err_eq_Inr split: if_splits)
qed

lemma format_stats_fields:
  "histories (format_stats ft now st s) = histories s"
  "train_metrics (format_stats ft now st s) = train_metrics s"
  "valid_metrics (format_stats ft now st s) = valid_metrics s"
  "has_metrics (format_stats ft now st s) = has_metrics s"
  "has_val (format_stats ft now st s) = has_val s"
  "n_batch (format_stats ft now st s) = n_batch s"
  by (simp_all add: format_stats_def train_metrics_def valid_metrics_def Let_def)

lemma plot_fields:
  assumes "plot s = Inr s'"
  shows "train_metrics s' = train_metrics s" and "valid_metrics s' = valid_metrics s"
    and "has_metrics s' = has_metrics s" and "has_val s' = has_val s"
    and "n_batch s' = n_batch s" and "histories s' = histories s"
  using plot_Inr [OF assms] by (auto simp add: train_metrics_def valid_metrics_def)

lemma on_epoch_end_Inr:
  assumes "on_epoch_end stack ft now ep sl metrics lm s = Inr s'"
  shows "has_metrics s' = has_metrics s \<and> has_val s' = has_val s \<and> n_batch s' = n_batch s
    \<and> (if has_metrics s
       then (\<exists>tr_lm. eval_metrics stack s metrics = Inr tr_lm
              \<and> train_metrics s' = train_metrics s @ [tr_lm]
              \<and> valid_metrics s' =
                  (if has_val s then valid_metrics s @ [drop 1 lm] else valid_metrics s))
       else train_metrics s' = train_metrics s \<and> valid_metrics s' = valid_metrics s)"
proof -
  from assms obtain stats p where
    p: "(if has_metrics s
        then bind_err (eval_metrics stack s metrics) (\<lambda>tr_lm.
             let s1 = s\<lparr> histories := Some (train_metrics s @ [tr_lm], valid_metrics s) \<rparr>;
                 vl_lm = drop 1 lm;
                 s2 = (if has_val s
                       then s1\<lparr> histories := Some (train_metrics s1, valid_metrics s1 @ [vl_lm]) \<rparr>
                       else s1)
             in bind_err (metric_stats (has_val s) tr_lm vl_lm [0..<length metrics] stats)
                  (\<lambda>stats'. Inr (stats', s2)))
        else Inr (stats, s)) = Inr p"
    and fin: "(case p of (stats', s2) \<Rightarrow>
     if \<not> silent s2
     then (let s3 = format_stats ft now stats' s2
           in if show_graph s3 \<and> 0 < length (train_metrics s3) then plot s3 else Inr s3)
     else Inr s2) = Inr s'"
    unfolding on_epoch_end_def bind_err_eq_Inr by blast
  obtain stats' s2 where pp: "p = (stats', s2)" by (cases p)
  let ?Q = "\<lambda>t. has_metrics t = has_metrics s \<and> has_val t = has_val s \<and> n_batch t = n_batch s
    \<and> (if has_metrics s
       then (\<exists>tr_lm. eval_metrics stack s metrics = Inr tr_lm
              \<and> train_metrics t = train_metrics s @ [tr_lm]
              \<and> valid_metrics t =
                  (if has_val s then valid_metrics s @ [drop 1 lm] else valid_metrics s))
       else train_metrics t = train_metrics s \<and> valid_metrics t = valid_metrics s)"
  have a: "?Q s2"
  proof (cases "has_metrics s")
    case True
    with p pp show ?thesis
      by (auto simp add: bind_err_eq_Inr Let_def train_metrics_def valid_metrics_def)
  next
    case False
    with p pp show ?thesis by simp
  qed
  let ?s3 = "format_stats ft now stats' s2"
  have b: "?Q ?s3" using a by (simp add: format_stats_fields)
  have c: "s' = s2 \<or> s' = ?s3 \<or> plot ?s3 = Inr s'"
    using fin pp by (auto simp add: Let_def split: if_splits)
  then show ?thesis
  proof (elim disjE)
    assume "s' = s2" with a show ?thesis by simp
  next
    assume "s' = ?s3" with b show ?thesis by simp
  next
    assume "plot ?s3 = Inr s'"
    from plot_fields [OF this] b show ?thesis by simp
  qed
qed

lemma on_epoch_end_histories:
  assumes "on_epoch_end stack ft now ep sl metrics lm s = Inr s'"
  shows "histories s \<noteq> None"
proof
  assume "histories s = None"
  then have "on_epoch_end stack ft now ep sl metrics lm s = Inl AttributeError"
    by (simp add: on_epoch_end_def)
  with assms show False by simp
qed

lemma eval_metric_Inr:
  "eval_metric stack s m = Inr v \<longleftrightarrow>
     (\<exists>so sy. stack (self_out s) = Inr so \<and> stack (self_y s) = Inr sy \<and> fn_call m so sy = Inr v)"
  by (auto simp add: eval_metric_def bind_err_eq_Inr)

lemma eval_metrics_Inr:
  "eval_metrics stack s ms = Inr vs \<Longrightarrow> list_all2 (\<lambda>m v. eval_metric stack s m = Inr v) ms vs"
  by (induction ms arbitrary: vs) (auto simp add: bind_err_eq_Inr)

lemma train_metrics_histories: "train_metrics s \<noteq> [] \<Longrightarrow> histories s \<noteq> None"
  by (cases "histories s") (simp_all add: train_metrics_def)

lemma on_epoch_begin_fields:
  "train_metrics (on_epoch_begin now s) = train_metrics s"
  "valid_metrics (on_epoch_begin now s) = valid_metrics s"
  "has_metrics (on_epoch_begin now s) = has_metrics s"
  "has_val (on_epoch_begin now s) = has_val s"
  "axes (on_epoch_begin now s) = axes s"
  by (simp_all add: on_epoch_begin_def train_metrics_def valid_metrics_def)

lemma run_epoch_Inr:
  assumes "run_epoch stack ft metrics e s = Inr s'"
  shows "has_metrics s' = has_metrics s \<and> has_val s' = has_val s
    \<and> length (train_metrics s') = length (train_metrics s) + (if has_metrics s then 1 else 0)
    \<and> length (valid_metrics s') =
        length (valid_metrics s) + (if has_metrics s \<and> has_val s then 1 else 0)"
  using on_epoch_end_Inr [OF assms [unfolded run_epoch_def]]
  by (auto simp add: run_batches_fields on_epoch_begin_fields split: if_splits)

lemma run_epochs_Inr:
  "run_epochs stack ft metrics es s = Inr s' \<Longrightarrow>
     has_metrics s' = has_metrics s \<and> has_val s' = has_val s
   \<and> length (train_metrics s') =
        length (train_metrics s) + (if has_metrics s then length es else 0)
   \<and> length (valid_metrics s') =
        length (valid_metrics s) + (if has_metrics s \<and> has_val s then length es else 0)"
proof (induction es arbitrary: s)
  case Nil
  then show ?case by simp
next
  case (Cons e es)
  from Cons.prems obtain s1 where
    s1: "run_epoch stack ft metrics e s = Inr s1"
    and rest: "run_epochs stack ft metrics es s1 = Inr s'"
    by (auto simp add: bind_err_eq_Inr)
  from run_epoch_Inr [OF s1] Cons.IH [OF rest] show ?case by simp
qed

lemma column_Inl: "column i h = Inl e \<Longrightarrow> e = IndexError"
  by (induction h arbitrary: e) (auto elim!: bind_err_Inl_cases split: if_splits)

lemma column_length: "column i h = Inr c \<Longrightarrow> length c = length h"
  by (induction h arbitrary: c) (auto simp add: bind_err_eq_Inr split: if_splits)

lemma column_all_nonempty:
  "list_all (\<lambda>m. m \<noteq> []) h \<Longrightarrow> \<exists>c. column 0 h = Inr c"
  by (induction h) auto

lemma to_float_Inl: "to_float v = Inl e \<Longrightarrow> e = TypeError"
  by (cases v) simp_all

lemma Tensor_Inl: "Tensor vs = Inl e \<Longrightarrow> e = TypeError"
  by (induction vs arbitrary: e) (auto elim!: bind_err_Inl_cases dest: to_float_Inl)

lemma py_min_Inl: "py_min xs = Inl e \<Longrightarrow> e = ValueError ''min() arg is an empty sequence''"
  by (cases xs) simp_all

lemma py_max_Inl: "py_max xs = Inl e \<Longrightarrow> e = ValueError ''max() arg is an empty sequence''"
  by (cases xs) simp_all

lemma set_ylim_Inl:
  "set_ylim b ax = Inl e \<Longrightarrow> e = ValueError ''Axis limits cannot be NaN or Inf''"
  by (auto simp add: set_ylim_def split: option.splits)

lemma plot_panel_Inl:
  assumes "plot_panel s i = Inl e"
  shows "e \<noteq> ValueError ''No records to plot.''"
  using assms unfolding plot_panel_def Let_def
  by (auto elim!: bind_err_Inl_cases
      dest!: column_Inl Tensor_Inl py_min_Inl py_max_Inl set_ylim_Inl
      split: if_splits prod.splits)

lemma plot_panels_Inl:
  "plot_panels s is = Inl e \<Longrightarrow> e \<noteq> ValueError ''No records to plot.''"
  by (induction "is" arbitrary: e) (auto elim!: bind_err_Inl_cases dest: plot_panel_Inl)

lemma plot_not_no_records:
  assumes "train_metrics s \<noteq> []"
  shows "plot s \<noteq> Inl (ValueError ''No records to plot.'')"
proof
  assume a: "plot s = Inl (ValueError ''No records to plot.'')"
  from assms obtain tm0 tms where "train_metrics s = tm0 # tms" by (cases "train_metrics s") auto
  with a show False
    by (auto simp add: plot_def subplots_def elim!: bind_err_Inl_cases dest: plot_panels_Inl
        split: if_splits option.splits)
qed

lemma plot_panel_no_validation:
  assumes "valid_metrics s = []" and "column i (train_metrics s) = Inr tr_m" and "tr_m \<noteq> []"
  shows "plot_panel s i = Inl (ValueError ''min() arg is an empty sequence'')"
proof -
  from assms(3) obtain x xs where "tr_m = x # xs" by (cases tr_m) auto
  with assms(1,2) show ?thesis by (simp add: plot_panel_def Let_def)
qed

lemma plot_panel_no_validation_fails:
  assumes "valid_metrics s = []" and "train_metrics s \<noteq> []"
  shows "\<exists>e. plot_panel s i = Inl e"
proof (cases "column i (train_metrics s)")
  case (Inl e)
  then show ?thesis by (simp add: plot_panel_def)
next
  case (Inr tr_m)
  from column_length [OF Inr] assms(2) have "tr_m \<noteq> []" by auto
  from plot_panel_no_validation [OF assms(1) Inr this] show ?thesis by blast
qed

lemma digit_value_digit: "digit_value (digit d) = d mod 10"
proof -
  have "d mod 10 = 0 \<or> d mod 10 = 1 \<or> d mod 10 = 2 \<or> d mod 10 = 3 \<or> d mod 10 = 4
      \<or> d mod 10 = 5 \<or> d mod 10 = 6 \<or> d mod 10 = 7 \<or> d mod 10 = 8 \<or> d mod 10 = 9"
    by presburger
  then show ?thesis
    unfolding digit_def digit_value_def by (elim disjE) simp_all
qed

lemma digit_in_digits: "digit d \<in> set ''0123456789''"
proof -
  have "d mod 10 < length ''0123456789''" by simp
  then show ?thesis unfolding digit_def by (rule nth_mem)
qed

lemma decimal_value_snoc: "decimal_value (cs @ [c]) = 10 * decimal_value cs + digit_value c"
  by (simp add: decimal_value_def)

lemma decimal_value_str_nat: "decimal_value (str_nat n) = n"
proof (induction n rule: str_nat.induct)
  case (1 n)
  show ?case
  proof (cases "n < 10")
    case True
    then show ?thesis
      by (simp add: str_nat.simps [of n] decimal_value_def digit_value_digit)
  next
    case False
    with 1 have "decimal_value (str_nat (n div 10)) = n div 10" by simp
    with False show ?thesis
      by (simp add: str_nat.simps [of n] decimal_value_snoc digit_value_digit)
  qed
qed

lemma str_nat_digits: "set (str_nat n) \<subseteq> set ''0123456789''"
proof (induction n rule: str_nat.induct)
  case (1 n)
  show ?case
  proof (cases "n < 10")
    case True
    with digit_in_digits [of n] show ?thesis by (simp add: str_nat.simps [of n])
  next
    case False
    with 1 have "set (str_nat (n div 10)) \<subseteq> set ''0123456789''" by simp
    with False digit_in_digits [of "n mod 10"] show ?thesis
      by (simp add: str_nat.simps [of n])
  qed
qed

lemma pad6_length: "length (pad6 n) = 6"
  by (simp add: pad6_def)

lemma pad6_digits: "set (pad6 n) \<subseteq> set ''0123456789''"
proof -
  define D where "D = set ''0123456789''"
  have dd: "digit d \<in> D" for d using digit_in_digits [of d] by (simp only: D_def)
  have "set (pad6 n) \<subseteq> D" by (simp add: pad6_def dd)
  then show ?thesis by (simp only: D_def)
qed

lemma decimal_value_pad6:
  assumes "n < 1000000"
  shows "decimal_value (pad6 n) = n"
proof -
  define a1 where "a1 = n div 10"
  define a2 where "a2 = a1 div 10"
  define a3 where "a3 = a2 div 10"
  define a4 where "a4 = a3 div 10"
  define a5 where "a5 = a4 div 10"
  have d: "n div 10 = a1" "n div 100 = a2" "n div 1000 = a3" "n div 10000 = a4"
    "n div 100000 = a5"
    by (simp_all add: a1_def a2_def a3_def a4_def a5_def div_mult2_eq [symmetric])
  have s: "n = 10 * a1 + n mod 10" "a1 = 10 * a2 + a1 mod 10" "a2 = 10 * a3 + a2 mod 10"
    "a3 = 10 * a4 + a3 mod 10" "a4 = 10 * a5 + a4 mod 10"
    by (simp_all add: a1_def a2_def a3_def a4_def a5_def)
  from assms have "a5 < 10" unfolding d(5) [symmetric] by simp
  then have a5: "a5 mod 10 = a5" by simp
  have "decimal_value (pad6 n) =
      10 * (10 * (10 * (10 * (10 * (a5 mod 10) + a4 mod 10) + a3 mod 10) + a2 mod 10) + a1 mod 10)
        + n mod 10"
    by (simp add: pad6_def decimal_value_def digit_value_digit d)
  also have "\<dots> = n"
    unfolding a5 by (simp add: a1_def a2_def a3_def a4_def a5_def)
  finally show ?thesis .
qed

lemma round_half_even_near: "\<bar>x - of_int (round_half_even x)\<bar> \<le> 1 / 2"
proof -
  have f: "of_int \<lfloor>x\<rfloor> \<le> x" "x < of_int \<lfloor>x\<rfloor> + 1" by linarith+
  consider "x - of_int \<lfloor>x\<rfloor> < 1 / 2" | "1 / 2 < x - of_int \<lfloor>x\<rfloor>"
    | "x - of_int \<lfloor>x\<rfloor> = 1 / 2"
    by linarith
  then show ?thesis
  proof cases
    case 1
    then have "round_half_even x = \<lfloor>x\<rfloor>" by (simp add: round_half_even_def Let_def)
    with f 1 show ?thesis by simp
  next
    case 2
    then have "round_half_even x = \<lfloor>x\<rfloor> + 1" by (simp add: round_half_even_def Let_def)
    with f 2 show ?thesis by simp
  next
    case 3
    then have "round_half_even x = \<lfloor>x\<rfloor> \<or> round_half_even x = \<lfloor>x\<rfloor> + 1"
      by (simp add: round_half_even_def Let_def)
    with f 3 show ?thesis by auto
  qed
qed

lemma round_half_even_nonneg:
  assumes "0 \<le> x"
  shows "0 \<le> round_half_even x"
proof -
  from assms have "0 \<le> \<lfloor>x\<rfloor>" by simp
  then show ?thesis unfolding round_half_even_def Let_def by auto
qed

lemma format_finite_shape:
  "\<exists>ds fs. format_finite x = (if x < 0 then ''-'' else []) @ ds @ ''.'' @ fs
     \<and> length fs = 6
     \<and> set ds \<subseteq> set ''0123456789'' \<and> set fs \<subseteq> set ''0123456789''
     \<and> \<bar>\<bar>x\<bar> * 1000000 - real (decimal_value ds * 1000000 + decimal_value fs)\<bar> \<le> 1 / 2"
proof -
  define r where "r = round_half_even (\<bar>x\<bar> * 1000000)"
  define q where "q = nat r"
  have "0 \<le> r" unfolding r_def by (rule round_half_even_nonneg) simp
  then have qr: "real q = of_int r" by (simp add: q_def)
  have near: "\<bar>\<bar>x\<bar> * 1000000 - real q\<bar> \<le> 1 / 2"
    unfolding qr r_def by (rule round_half_even_near)
  have fmt: "format_finite x =
      (if x < 0 then ''-'' else []) @ str_nat (q div 1000000) @ ''.'' @ pad6 (q mod 1000000)"
    by (simp add: format_finite_def Let_def q_def r_def)
  have val: "decimal_value (str_nat (q div 1000000)) * 1000000
      + decimal_value (pad6 (q mod 1000000)) = q"
    by (simp add: decimal_value_str_nat decimal_value_pad6)
  show ?thesis
    using fmt near pad6_length [of "q mod 1000000"] str_nat_digits [of "q div 1000000"]
      pad6_digits [of "q mod 1000000"] val
    by metis
qed

lemma format_int_shape:
  "\<exists>ds. str_int i = (if i < 0 then ''-'' else []) @ ds
     \<and> set ds \<subseteq> set ''0123456789'' \<and> int (decimal_value ds) = \<bar>i\<bar>"
  using str_nat_digits [of "nat \<bar>i\<bar>"]
  by (auto simp add: str_int_def decimal_value_str_nat abs_if)

lemma format_stats_row:
  "pbar (format_stats ft now stats s) =
     pbar s @ [map format_stat (take (length (names s)) stats) @ [ft (now - start_epoch s)]]"
proof -
  have "map (\<lambda>(name, stat). format_stat stat) (zip ns st) = map format_stat (take (length ns) st)"
    for ns :: "string list" and st
    by (induction ns st rule: list_induct2') simp_all
  then show ?thesis by (simp add: format_stats_def Let_def)
qed

lemma round_example: "round_half_even (\<bar>0.123456789\<bar> * 1000000) = 123457"
  by (simp add: round_half_even_def Let_def)

lemma format_int_example: "format_stat (IntStat 3) = ''3''"
  by (simp add: str_int_def str_nat.simps digit_def)

lemma format_float_example: "format_stat (FloatStat (Finite 0.123456789)) = ''0.123457''"
proof -
  have s: "str_nat 0 = ''0''" by (simp add: str_nat.simps digit_def)
  have p: "pad6 123457 = ''123457''" by (simp add: pad6_def digit_def)
  have "format_finite 0.123456789 = ''0.123457''"
    unfolding format_finite_def round_example by (simp add: s p)
  then show ?thesis by simp
qed

lemma min_of_Finite: "min_of (Finite x) (map Finite xs) = Finite (fold min xs x)"
  unfolding min_of_def by (induction xs arbitrary: x) (simp_all add: min_def)

lemma max_of_Finite: "max_of (Finite x) (map Finite xs) = Finite (fold max xs x)"
  unfolding max_of_def by (induction xs arbitrary: x) (simp_all add: max_def)

lemma py_min_Finite: "xs \<noteq> [] \<Longrightarrow> py_min (map Finite xs) = Inr (Finite (Min (set xs)))"
  by (cases xs) (simp_all add: min_of_Finite Min.set_eq_fold [symmetric])

lemma py_max_Finite: "xs \<noteq> [] \<Longrightarrow> py_max (map Finite xs) = Inr (Finite (Max (set xs)))"
  by (cases xs) (simp_all add: max_of_Finite Max.set_eq_fold [symmetric])

lemma py_min_Inr: "py_min xs = Inr m \<Longrightarrow> xs \<noteq> []"
  by (cases xs) simp_all

lemma plot_panel_Inr:
  assumes "plot_panel s i = Inr ax"
  shows "\<exists>tr_m vl_m vl. column i (train_metrics s) = Inr tr_m
      \<and> column i (valid_metrics s) = Inr vl_m \<and> Tensor vl_m = Inr vl
      \<and> tr_m \<noteq> [] \<and> vl \<noteq> []
      \<and> xlim ax = Some (- 0.05, real_of_int (n_epochs s) - 0.95)
      \<and> (\<forall>vs. vl = map Finite vs \<longrightarrow>
           ylim ax = Some (min (- 0.05) (Min (set tr_m \<union> set vs)) - 0.05,
                           max 1.05 (Max (set tr_m \<union> set vs)) + 0.05))"
proof -
  from assms obtain tr_m where tr: "column i (train_metrics s) = Inr tr_m"
    unfolding plot_panel_def bind_err_eq_Inr by blast
  have nv: "valid_metrics s \<noteq> []"
  proof
    assume "valid_metrics s = []"
    with assms tr show False
      by (cases tr_m) (simp_all add: plot_panel_def Let_def)
  qed
  from assms tr nv obtain vl_m where vlm: "column i (valid_metrics s) = Inr vl_m"
    by (cases "column i (valid_metrics s)") (simp_all add: plot_panel_def Let_def)
  from assms tr nv vlm obtain vl where vl: "Tensor vl_m = Inr vl"
    by (cases "Tensor vl_m") (simp_all add: plot_panel_def Let_def split: if_splits)
  from assms tr nv vlm vl have "\<exists>mn_tr mn_vl mx_tr mx_vl ax2 ax3.
      py_min (map Finite tr_m) = Inr mn_tr \<and> py_min vl = Inr mn_vl
      \<and> py_max (map Finite tr_m) = Inr mx_tr \<and> py_max vl = Inr mx_vl
      \<and> set_ylim (float_add (min_of (Finite (- 0.05)) [mn_tr, mn_vl]) (- 0.05),
                  float_add (max_of (Finite 1.05) [mx_tr, mx_vl]) 0.05)
            (ax2\<lparr> xlim := Some (- 0.05, real_of_int (n_epochs s) - 0.95) \<rparr>) = Inr ax3
      \<and> ax = ax3\<lparr> ylabel := metrics_names s ! i, xlabel := ''Epochs'' \<rparr>"
    by (auto simp add: plot_panel_def Let_def bind_err_eq_Inr split: if_splits)
  then obtain mn_tr mn_vl mx_tr mx_vl ax2 ax3 where
    m: "py_min (map Finite tr_m) = Inr mn_tr" "py_min vl = Inr mn_vl"
       "py_max (map Finite tr_m) = Inr mx_tr" "py_max vl = Inr mx_vl"
    and lim: "set_ylim (float_add (min_of (Finite (- 0.05)) [mn_tr, mn_vl]) (- 0.05),
                  float_add (max_of (Finite 1.05) [mx_tr, mx_vl]) 0.05)
            (ax2\<lparr> xlim := Some (- 0.05, real_of_int (n_epochs s) - 0.95) \<rparr>) = Inr ax3"
    and ax: "ax = ax3\<lparr> ylabel := metrics_names s ! i, xlabel := ''Epochs'' \<rparr>"
    by blast
  from m have ne: "tr_m \<noteq> []" "vl \<noteq> []" by (auto dest: py_min_Inr)
  from lim ax have x: "xlim ax = Some (- 0.05, real_of_int (n_epochs s) - 0.95)"
    by (auto simp add: set_ylim_def split: option.splits)
  have y: "ylim ax = Some (min (- 0.05) (Min (set tr_m \<union> set vs)) - 0.05,
                           max 1.05 (Max (set tr_m \<union> set vs)) + 0.05)"
    if fin: "vl = map Finite vs" for vs
  proof -
    from ne fin have vs: "vs \<noteq> []" by auto
    from m ne vs have v: "mn_tr = Finite (Min (set tr_m))" "mn_vl = Finite (Min (set vs))"
      "mx_tr = Finite (Max (set tr_m))" "mx_vl = Finite (Max (set vs))"
      unfolding fin by (simp_all add: py_min_Finite py_max_Finite)
    have lo: "min_of (Finite (- 0.05)) [mn_tr, mn_vl]
        = Finite (min (- 0.05) (Min (set tr_m \<union> set vs)))"
      using min_of_Finite [of "- 0.05" "[Min (set tr_m), Min (set vs)]"] ne vs
      unfolding v by (simp add: Min_Un min.commute min.left_commute)
    have hi: "max_of (Finite 1.05) [mx_tr, mx_vl]
        = Finite (max 1.05 (Max (set tr_m \<union> set vs)))"
      using max_of_Finite [of "1.05" "[Max (set tr_m), Max (set vs)]"] ne vs
      unfolding v by (simp add: Max_Un max.commute max.left_commute)
    from lim ax show ?thesis unfolding lo hi by (auto simp add: set_ylim_def)
  qed
  from tr vlm vl ne x y show ?thesis by blast
qed

lemma plot_panels_Inr:
  "plot_panels s is = Inr axs \<Longrightarrow>
     length axs = length is \<and> (\<forall>k < length is. plot_panel s (is ! k) = Inr (axs ! k))"
proof (induction "is" arbitrary: axs)
  case Nil
  then show ?case by simp
next
  case (Cons i "is")
  from Cons.prems obtain ax rest where
    a: "plot_panel s i = Inr ax" and r: "plot_panels s is = Inr rest" and e: "axs = ax # rest"
    by (auto simp add: bind_err_eq_Inr)
  from Cons.IH [OF r] a e show ?case by (auto simp add: nth_Cons')
qed

text \<open>
  When \<^verbatim>\<open>plot\<close> returns, both histories are non-empty and every panel \<open>i\<close> has the x
  bounds \<open>(-0.05, n_epochs - 0.95)\<close> and, when the validation values of metric \<open>i\<close> are
  finite, the y bounds \<open>(min(-0.05, lo) - 0.05, max(1.05, hi) + 0.05)\<close>, where \<open>lo\<close> and
  \<open>hi\<close> are the least and the greatest value of metric \<open>i\<close> over the training and the
  validation history.
\<close>

lemma plot_bounds:
  assumes "plot s = Inr s'"
  shows "\<exists>axs. axes s' = Some axs \<and> (\<forall>i < length axs.
      \<exists>tr_m vl_m vl. column i (train_metrics s) = Inr tr_m
      \<and> column i (valid_metrics s) = Inr vl_m \<and> Tensor vl_m = Inr vl
      \<and> tr_m \<noteq> [] \<and> vl \<noteq> []
      \<and> xlim (axs ! i) = Some (- 0.05, real_of_int (n_epochs s) - 0.95)
      \<and> (\<forall>vs. vl = map Finite vs \<longrightarrow>
           ylim (axs ! i) = Some (min (- 0.05) (Min (set tr_m \<union> set vs)) - 0.05,
                                 max 1.05 (Max (set tr_m \<union> set vs)) + 0.05)))"
proof -
  from assms have "\<exists>(old :: panel list) axs. plot_panels s [0..<length old] = Inr axs
      \<and> s' = s\<lparr> axes := Some axs, graphs := Some axs \<rparr>"
    by (cases "train_metrics s")
       (auto simp add: plot_def bind_err_eq_Inr split: if_splits)
  then obtain old :: "panel list" and axs where
    p: "plot_panels s [0..<length old] = Inr axs" and s': "s' = s\<lparr> axes := Some axs, graphs := Some axs \<rparr>"
    by blast
  from plot_panels_Inr [OF p] have len: "length axs = length old"
    and each: "\<forall>k < length old. plot_panel s k = Inr (axs ! k)" by auto
  have "\<exists>tr_m vl_m vl. column i (train_metrics s) = Inr tr_m
      \<and> column i (valid_metrics s) = Inr vl_m \<and> Tensor vl_m = Inr vl
      \<and> tr_m \<noteq> [] \<and> vl \<noteq> []
      \<and> xlim (axs ! i) = Some (- 0.05, real_of_int (n_epochs s) - 0.95)
      \<and> (\<forall>vs. vl = map Finite vs \<longrightarrow>
           ylim (axs ! i) = Some (min (- 0.05) (Min (set tr_m \<union> set vs)) - 0.05,
                                 max 1.05 (Max (set tr_m \<union> set vs)) + 0.05))"
    if "i < length axs" for i
    using each that len by (intro plot_panel_Inr) simp
  with s' show ?thesis by simp
qed

text \<open>
  A figure, once it exists, has at least one panel: \<^verbatim>\<open>plot\<close> creates it with one panel
  per metric and no hook removes panels. So the recorder of every training run
  satisfies \<open>axes s \<noteq> Some []\<close>.
\<close>

lemma plot_keeps_panels:
  assumes "plot s = Inr s'" and "axes s \<noteq> Some []"
  shows "axes s' \<noteq> Some []"
proof (cases "train_metrics s")
  case Nil
  with assms(1) show ?thesis by (simp add: plot_def split: if_splits)
next
  case (Cons tm0 tms)
  let ?fig = "case axes s of None \<Rightarrow> subplots (length tm0) | Some a \<Rightarrow> Inr a"
  from assms(1) Cons have "bind_err ?fig (\<lambda>axs.
            bind_err (plot_panels s [0..<length axs]) (\<lambda>axs'.
            Inr (s\<lparr> axes := Some axs', graphs := Some axs' \<rparr>))) = Inr s'"
    by (simp add: plot_def split: if_splits)
  then obtain old axs where old: "?fig = Inr old"
    and p: "plot_panels s [0..<length old] = Inr axs"
    and s': "s' = s\<lparr> axes := Some axs, graphs := Some axs \<rparr>"
    unfolding bind_err_eq_Inr by auto
  from old assms(2) have "old \<noteq> []"
    by (auto simp add: subplots_def split: option.splits if_splits)
  with plot_panels_Inr [OF p] have "axs \<noteq> []" by auto
  with s' show ?thesis by simp
qed

lemma run_batches_axes: "axes (run_batches tr i bs s) = axes s"
  by (induction bs arbitrary: i s) (simp_all add: on_batch_end_def)

lemma on_epoch_end_keeps_panels:
  assumes "on_epoch_end stack ft now ep sl metrics lm s = Inr s'" and "axes s \<noteq> Some []"
  shows "axes s' \<noteq> Some []"
proof -
  from assms(1) obtain stats p where
    p: "(if has_metrics s
        then bind_err (eval_metrics stack s metrics) (\<lambda>tr_lm.
             let s1 = s\<lparr> histories := Some (train_metrics s @ [tr_lm], valid_metrics s) \<rparr>;
                 vl_lm = drop 1 lm;
                 s2 = (if has_val s
                       then s1\<lparr> histories := Some (train_metrics s1, valid_metrics s1 @ [vl_lm]) \<rparr>
                       else s1)
             in bind_err (metric_stats (has_val s) tr_lm vl_lm [0..<length metrics] stats)
                  (\<lambda>stats'. Inr (stats', s2)))
        else Inr (stats, s)) = Inr p"
    and fin: "(case p of (stats', s2) \<Rightarrow>
     if \<not> silent s2
     then (let s3 = format_stats ft now stats' s2
           in if show_graph s3 \<and> 0 < length (train_metrics s3) then plot s3 else Inr s3)
     else Inr s2) = Inr s'"
    unfolding on_epoch_end_def bind_err_eq_Inr by blast
  obtain stats' s2 where pp: "p = (stats', s2)" by (cases p)
  have a: "axes s2 = axes s"
    using p pp by (cases "has_metrics s") (auto simp add: bind_err_eq_Inr Let_def)
  let ?s3 = "format_stats ft now stats' s2"
  have b: "axes ?s3 = axes s" using a by (simp add: format_stats_def Let_def)
  have "s' = s2 \<or> s' = ?s3 \<or> plot ?s3 = Inr s'"
    using fin pp by (auto simp add: Let_def split: if_splits)
  then show ?thesis
  proof (elim disjE)
    assume "s' = s2" with a assms(2) show ?thesis by simp
  next
    assume "s' = ?s3" with b assms(2) show ?thesis by simp
  next
    assume "plot ?s3 = Inr s'"
    from plot_keeps_panels [OF this] b assms(2) show ?thesis by simp
  qed
qed

lemma run_epochs_keeps_panels:
  "run_epochs stack ft metrics es s = Inr s' \<Longrightarrow> axes s \<noteq> Some [] \<Longrightarrow> axes s' \<noteq> Some []"
proof (induction es arbitrary: s)
  case Nil
  then show ?case by simp
next
  case (Cons e es)
  from Cons.prems(1) obtain s1 where
    s1: "run_epoch stack ft metrics e s = Inr s1"
    and rest: "run_epochs stack ft metrics es s1 = Inr s'"
    by (auto simp add: bind_err_eq_Inr)
  from on_epoch_end_keeps_panels [OF s1 [unfolded run_epoch_def]] Cons.prems(2)
  have "axes s1 \<noteq> Some []" by (simp add: run_batches_axes on_epoch_begin_def)
  from Cons.IH [OF rest this] show ?case .
qed

lemma fit_keeps_panels:
  assumes "TrainMetricsRecorder_init nb sg sl = Inr r"
    and "run_epochs stack ft metrics es (on_train_begin pb metrics n_ep hv r) = Inr s'"
  shows "axes s' \<noteq> Some []"
proof -
  from assms(1) have "axes r = None"
    by (auto simp add: TrainMetricsRecorder_init_def new_recorder_def split: if_splits)
  then have "axes (on_train_begin pb metrics n_ep hv r) \<noteq> Some []"
    by (simp add: on_train_begin_def Let_def)
  from run_epochs_keeps_panels [OF assms(2) this] show ?thesis .
qed

subsection \<open>Batch accumulation\<close>

text \<open>
  Claim C1. Let the recorder be constructed successfully with batch cap \<open>nb\<close>. After
  \<^verbatim>\<open>on_epoch_begin\<close> and \<open>n\<close> calls of \<^verbatim>\<open>on_batch_end\<close> with batch indices \<open>0, \<dots>, n - 1\<close>,
  both buffers have the same length: \<open>min n k\<close> for training batches with metrics
  configured and cap \<open>k\<close>, \<open>n\<close> for training batches with metrics configured and no cap,
  and \<open>0\<close> when metrics are not configured or the batches are validation batches.
\<close>

theorem batch_accumulation:
  assumes "TrainMetricsRecorder_init nb sg sl = Inr r" and "n_batch s = nb"
  shows "int (length (self_y (run_batches tr 0 bs (on_epoch_begin now s)))) =
           (if tr \<and> has_metrics s
            then (case nb of None \<Rightarrow> int (length bs) | Some k \<Rightarrow> min (int (length bs)) k)
            else 0)
       \<and> length (self_out (run_batches tr 0 bs (on_epoch_begin now s))) =
           length (self_y (run_batches tr 0 bs (on_epoch_begin now s)))"
proof -
  let ?s0 = "on_epoch_begin now s"
  have cap: "case nb of None \<Rightarrow> True | Some k \<Rightarrow> 0 \<le> k"
    using assms(1) by (simp add: init_cases split: option.splits if_splits)
  have "length (self_y (run_batches tr 0 bs ?s0)) =
           (if tr \<and> has_metrics s
            then (case nb of None \<Rightarrow> length bs | Some k \<Rightarrow> nat (min (int (length bs)) k))
            else 0)"
    using assms(2) by (simp add: run_batches_length on_epoch_begin_def split: option.splits)
  with cap have y: "int (length (self_y (run_batches tr 0 bs ?s0))) =
           (if tr \<and> has_metrics s
            then (case nb of None \<Rightarrow> int (length bs) | Some k \<Rightarrow> min (int (length bs)) k)
            else 0)"
    by (simp split: option.splits)
  have o: "length (self_out (run_batches tr 0 bs ?s0)) = length (self_y (run_batches tr 0 bs ?s0))"
    using run_batches_same_length [of tr 0 bs ?s0] by (simp add: on_epoch_begin_def)
  from y o show ?thesis by simp
qed

theorem batch_accumulation_witness:
  "TrainMetricsRecorder_init (Some 2) False False = Inr (new_recorder (Some 2) False False :: nat recorder)
   \<and> length (self_y (run_batches True 0 [(1::nat, 2), (3, 4), (5, 6)]
      (on_epoch_begin 0 (on_train_begin [] [\<lparr>fn_name = ''accuracy'', fn_call = (\<lambda>a b. Inr 0)\<rparr>] 1 True
          (new_recorder (Some 2) False False))))) = 2"
  using batch_accumulation [of "Some 2" False False "new_recorder (Some 2) False False"
      "on_train_begin [] [\<lparr>fn_name = ''accuracy'', fn_call = (\<lambda>a b. Inr 0)\<rparr>] 1 True
          (new_recorder (Some 2) False False)" True "[(1::nat, 2), (3, 4), (5, 6)]" 0]
  by (simp add: TrainMetricsRecorder_init_def truthy_def on_train_begin_def Let_def new_recorder_def)

subsection \<open>History lengths\<close>

text \<open>
  Claim C2, as the code has it. The histories grow only under the guard
  \<^verbatim>\<open>if self.has_metrics\<close>. In a run whose \<open>e\<close> calls of \<^verbatim>\<open>on_epoch_end\<close> all return:
  with metrics configured the training history has length \<open>e\<close>, and the validation
  history has length \<open>e\<close> if a validation set exists; without metrics both histories
  stay empty, and without a validation set the validation history stays empty.
\<close>

theorem history_lengths:
  assumes "run_epochs stack ft metrics es (on_train_begin pb metrics n_ep hv s0) = Inr s'"
  shows "length (train_metrics s') = (if metrics \<noteq> [] then length es else 0)
       \<and> length (valid_metrics s') = (if metrics \<noteq> [] \<and> hv then length es else 0)"
  using run_epochs_Inr [OF assms]
  by (simp add: on_train_begin_def train_metrics_def valid_metrics_def Let_def)

theorem history_lengths_witness:
  "\<not> isl (example_run [example_accuracy] True [FloatStat (Finite 0.5), FloatStat (Finite 0.75)])
   \<and> length (train_metrics
        (projr (example_run [example_accuracy] True [FloatStat (Finite 0.5), FloatStat (Finite 0.75)]))) = 1
   \<and> length (valid_metrics
        (projr (example_run [example_accuracy] True [FloatStat (Finite 0.5), FloatStat (Finite 0.75)]))) = 1"
  using history_lengths [of example_stack example_format_time "[example_accuracy]"
      "[example_epoch [FloatStat (Finite 0.5), FloatStat (Finite 0.75)]]" "[]" 1 True
      "new_recorder (Some 2) False False"
      "projr (example_run [example_accuracy] True [FloatStat (Finite 0.5), FloatStat (Finite 0.75)])"]
  by (simp add: ex_defs)

text \<open>
  The claim as stated fails for a run without metric functions: after the first epoch
  the training history is still empty.
\<close>

theorem history_lengths_counterexample:
  "\<not> isl (example_run [] False [])
   \<and> length (train_metrics (projr (example_run [] False []))) \<noteq> 1"
  by (simp add: ex_defs)

subsection \<open>Evaluation of the metrics at the end of an epoch\<close>

text \<open>
  Claim C3. When \<^verbatim>\<open>on_epoch_end\<close> returns and metrics are configured, the accumulated
  outputs were combined into one tensor \<open>so\<close> and the accumulated targets into one
  tensor \<open>sy\<close>, and the vector appended to the training history holds, for each metric
  function in order, the one value of that function at \<open>(so, sy)\<close>: one evaluation on
  the combined tensors, not a mean of per-batch values.
\<close>

theorem epoch_end_metric_evaluation:
  assumes "on_epoch_end stack ft now ep sl metrics lm s = Inr s'"
    and "has_metrics s" and "metrics \<noteq> []"
  shows "\<exists>so sy vs. stack (self_out s) = Inr so \<and> stack (self_y s) = Inr sy
           \<and> train_metrics s' = train_metrics s @ [vs]
           \<and> list_all2 (\<lambda>m_fn v. fn_call m_fn so sy = Inr v) metrics vs"
proof -
  from on_epoch_end_Inr [OF assms(1)] assms(2) obtain vs where
    ev: "eval_metrics stack s metrics = Inr vs" and tm: "train_metrics s' = train_metrics s @ [vs]"
    by auto
  from eval_metrics_Inr [OF ev]
  have all: "list_all2 (\<lambda>m v. eval_metric stack s m = Inr v) metrics vs" .
  from assms(3) obtain m ms where ms: "metrics = m # ms" by (cases metrics) auto
  with all obtain v where "eval_metric stack s m = Inr v" by (auto simp add: list_all2_Cons1)
  then obtain so sy where so: "stack (self_out s) = Inr so" and sy: "stack (self_y s) = Inr sy"
    by (auto simp add: eval_metric_Inr)
  have "list_all2 (\<lambda>m_fn v. fn_call m_fn so sy = Inr v) metrics vs"
    using all so sy by (auto simp add: eval_metric_Inr elim!: list_all2_mono)
  with so sy tm show ?thesis by blast
qed

theorem epoch_end_metric_evaluation_witness:
  "has_metrics example_batches_done
   \<and> self_out example_batches_done = [[1, 1], [0, 1]]
   \<and> train_metrics (projr (on_epoch_end example_stack example_format_time 12 0 (Finite 0.25)
        [example_accuracy] [FloatStat (Finite 0.5), FloatStat (Finite 0.75)] example_batches_done)) = [[1 / 2]]"
  using epoch_end_metric_evaluation [of example_stack example_format_time 12 0 "Finite 0.25"
      "[example_accuracy]" "[FloatStat (Finite 0.5), FloatStat (Finite 0.75)]" example_batches_done
      "projr (on_epoch_end example_stack example_format_time 12 0 (Finite 0.25)
        [example_accuracy] [FloatStat (Finite 0.5), FloatStat (Finite 0.75)] example_batches_done)"]
  by (simp add: ex_defs)

subsection \<open>Construction\<close>

text \<open>
  Claim C4. The claim asks that every batch cap \<open>\<le> 0\<close> is rejected at construction.
  The cap \<open>0\<close> is not: the guard \<^verbatim>\<open>if n_batch:\<close> is false for it, the assertion
  \<^verbatim>\<open>n_batch > 0\<close> is never evaluated, and construction returns a recorder whose cap
  is \<open>0\<close>.
\<close>

theorem init_zero_cap_accepted:
  "TrainMetricsRecorder_init (Some 0) sg sl = Inr (new_recorder (Some 0) sg sl)"
  by (simp add: TrainMetricsRecorder_init_def truthy_def)

subsection \<open>Column names\<close>

text \<open>
  Claim C5. After \<^verbatim>\<open>on_train_begin\<close> with the metric functions \<open>metrics\<close>, the column
  names are: epoch, train loss, the validation loss if a validation set exists, then
  for each metric its training column followed by its validation column if a
  validation set exists, then time. Their number is
  \<open>2 + (1 if validation) + m * (2 if validation else 1) + 1\<close> for \<open>m\<close> metrics.
\<close>

theorem on_train_begin_names:
  "names (on_train_begin pb metrics n_ep hv s) =
      [''epoch'', ''train_loss''] @ (if hv then [''valid_loss''] else [])
      @ concat (map (\<lambda>m. if hv then [''train_'' @ fn_name m, ''valid_'' @ fn_name m]
                          else [''train_'' @ fn_name m]) metrics)
      @ [''time'']
   \<and> length (names (on_train_begin pb metrics n_ep hv s)) =
      2 + (if hv then 1 else 0) + length metrics * (if hv then 2 else 1) + 1"
  by (simp add: on_train_begin_def Let_def append_metric_names_eq map_concat comp_def
      length_concat sum_list_triv o_def)

subsection \<open>Formatting\<close>

text \<open>
  Claim C6, as the code has it. In the stats row a missing value is printed as \<open>#na#\<close>;
  an integer as its decimal digits, with a minus sign if it is negative (\<open>3\<close> as "3");
  any other finite number with its sign, the digits of its integer part, a point and
  exactly six digits, which together denote the value rounded to six decimal places
  (\<open>0.123456789\<close> as "0.123457"), negative zero as "-0.000000". The values that are
  not finite are printed without decimals, as "inf", "-inf" and "nan". The row holds
  one entry for each stat that has a column name, and its last entry is the formatted
  time elapsed since the start of the epoch.
\<close>

theorem stats_row_formatting:
  "format_stat NoneStat = ''#na#''
   \<and> format_stat (IntStat 3) = ''3''
   \<and> (\<exists>ds. format_stat (IntStat i) = (if i < 0 then ''-'' else []) @ ds
         \<and> set ds \<subseteq> set ''0123456789'' \<and> int (decimal_value ds) = \<bar>i\<bar>)
   \<and> format_stat (FloatStat (Finite 0.123456789)) = ''0.123457''
   \<and> (\<exists>ds fs. format_stat (FloatStat (Finite x)) = (if x < 0 then ''-'' else []) @ ds @ ''.'' @ fs
         \<and> length fs = 6
         \<and> set ds \<subseteq> set ''0123456789'' \<and> set fs \<subseteq> set ''0123456789''
         \<and> \<bar>\<bar>x\<bar> * 1000000 - real (decimal_value ds * 1000000 + decimal_value fs)\<bar> \<le> 1 / 2)
   \<and> format_stat (FloatStat NegZero) = ''-0.000000''
   \<and> format_stat (FloatStat PosInf) = ''inf''
   \<and> format_stat (FloatStat NegInf) = ''-inf''
   \<and> format_stat (FloatStat NaN) = ''nan''
   \<and> pbar (format_stats ft now stats s) =
       pbar s @ [map format_stat (take (length (names s)) stats) @ [ft (now - start_epoch s)]]"
proof -
  have a: "format_stat NoneStat = ''#na#''" by simp
  have b: "\<exists>ds. format_stat (IntStat i) = (if i < 0 then ''-'' else []) @ ds
         \<and> set ds \<subseteq> set ''0123456789'' \<and> int (decimal_value ds) = \<bar>i\<bar>"
    using format_int_shape [of i] by simp
  have c: "\<exists>ds fs. format_stat (FloatStat (Finite x)) = (if x < 0 then ''-'' else []) @ ds @ ''.'' @ fs
         \<and> length fs = 6
         \<and> set ds \<subseteq> set ''0123456789'' \<and> set fs \<subseteq> set ''0123456789''
         \<and> \<bar>\<bar>x\<bar> * 1000000 - real (decimal_value ds * 1000000 + decimal_value fs)\<bar> \<le> 1 / 2"
    using format_finite_shape [of x] by simp
  have d: "format_stat (FloatStat NegZero) = ''-0.000000''"
    "format_stat (FloatStat PosInf) = ''inf''" "format_stat (FloatStat NegInf) = ''-inf''"
    "format_stat (FloatStat NaN) = ''nan''"
    by simp_all
  from a format_int_example b format_float_example c d format_stats_row [of ft now stats s]
  show ?thesis by (intro conjI)
qed

text \<open>
  The claim as stated fails for a float that is not finite: not-a-number is printed as
  "nan", with no decimal point and no digit.
\<close>

theorem stats_row_formatting_counterexample:
  "format_stat (FloatStat NaN) = ''nan'' \<and> CHR ''.'' \<notin> set (format_stat (FloatStat NaN))"
  by simp

subsection \<open>Plotting\<close>

text \<open>
  Claim C7, at an input where it fails. After one epoch of a run with one metric and no
  validation set the training history is \<open>[[1/2]]\<close> and the validation history is
  empty. \<^verbatim>\<open>plot\<close> then sets no axis bounds: it raises, because the lower y bound takes
  \<^verbatim>\<open>min\<close> of the empty validation series.
\<close>

theorem plot_bounds_without_validation:
  "train_metrics (projr (example_run [example_accuracy] False [])) = [[1 / 2]]
   \<and> valid_metrics (projr (example_run [example_accuracy] False [])) = []
   \<and> plot (projr (example_run [example_accuracy] False []))
       = Inl (ValueError ''min() arg is an empty sequence'')"
  by (simp add: ex_defs plot_def subplots_def plot_panel_def clear_def)

text \<open>
  Claim C8, as the code has it. The histories exist from \<^verbatim>\<open>on_train_begin\<close> on. When
  they exist and the training history is empty, \<^verbatim>\<open>plot\<close> raises the error "No records
  to plot."; when they do not exist yet, \<^verbatim>\<open>plot\<close> raises \<^verbatim>\<open>AttributeError\<close>; and when the
  training history is not empty, \<^verbatim>\<open>plot\<close> never raises the error "No records to plot.".
\<close>

theorem plot_no_records_after_train_begin:
  "(histories s \<noteq> None \<and> train_metrics s = [] \<longrightarrow>
      plot s = Inl (ValueError ''No records to plot.''))
   \<and> (histories s = None \<longrightarrow> plot s = Inl AttributeError)
   \<and> (train_metrics s \<noteq> [] \<longrightarrow> plot s \<noteq> Inl (ValueError ''No records to plot.''))"
proof (intro conjI impI)
  assume "histories s \<noteq> None \<and> train_metrics s = []"
  then show "plot s = Inl (ValueError ''No records to plot.'')" by (simp add: plot_def)
next
  assume "histories s = None"
  then show "plot s = Inl AttributeError" by (simp add: plot_def)
next
  assume "train_metrics s \<noteq> []"
  then show "plot s \<noteq> Inl (ValueError ''No records to plot.'')" by (rule plot_not_no_records)
qed

theorem plot_no_records_after_train_begin_witness:
  "plot (example_begin [example_accuracy] True) = Inl (ValueError ''No records to plot.'')
   \<and> plot (new_recorder (Some 2) False False :: real list recorder) = Inl AttributeError
   \<and> plot (projr (example_run [example_accuracy] True [FloatStat (Finite 0.5), FloatStat (Finite 0.75)]))
       \<noteq> Inl (ValueError ''No records to plot.'')"
  using plot_no_records_after_train_begin [of "example_begin [example_accuracy] True"]
    plot_no_records_after_train_begin [of "new_recorder (Some 2) False False :: real list recorder"]
    plot_no_records_after_train_begin
      [of "projr (example_run [example_accuracy] True [FloatStat (Finite 0.5), FloatStat (Finite 0.75)])"]
  by (simp add: ex_defs)

text \<open>
  The claim as stated fails on a recorder that has been constructed but has not seen
  \<^verbatim>\<open>on_train_begin\<close>: no epoch has completed, and \<^verbatim>\<open>plot\<close> raises \<^verbatim>\<open>AttributeError\<close>, not
  the error "No records to plot.".
\<close>

theorem plot_no_records_counterexample:
  "TrainMetricsRecorder_init None False False
     = Inr (new_recorder None False False :: real list recorder)
   \<and> plot (new_recorder None False False :: real list recorder) = Inl AttributeError
   \<and> plot (new_recorder None False False :: real list recorder)
       \<noteq> Inl (ValueError ''No records to plot.'')"
  by (simp add: TrainMetricsRecorder_init_def truthy_def plot_def new_recorder_def)

text \<open>
  Claim C10. In a state with a non-empty training history and an empty validation
  history, \<^verbatim>\<open>plot\<close> fails although there are records to plot (a figure that exists has
  at least one panel, as \<^verbatim>\<open>plot\<close> creates it). When every recorded training vector has
  an entry, the error is the one of \<^verbatim>\<open>min\<close> on the empty validation series.
\<close>

theorem plot_fails_without_validation:
  assumes "train_metrics s \<noteq> []" and "valid_metrics s = []" and "axes s \<noteq> Some []"
  shows "(\<exists>e. plot s = Inl e \<and> e \<noteq> ValueError ''No records to plot.'')
       \<and> (list_all (\<lambda>m. m \<noteq> []) (train_metrics s) \<longrightarrow>
            plot s = Inl (ValueError ''min() arg is an empty sequence''))"
proof -
  from assms(1) obtain tm0 tms where tm: "train_metrics s = tm0 # tms"
    by (cases "train_metrics s") auto
  let ?fig = "case axes s of None \<Rightarrow> subplots (length tm0) | Some axs \<Rightarrow> Inr axs"
  have unfold: "plot s = bind_err ?fig (\<lambda>axs.
            bind_err (plot_panels s [0..<length axs]) (\<lambda>axs'.
            Inr (s\<lparr> axes := Some axs', graphs := Some axs' \<rparr>)))"
    using tm assms(2) train_metrics_histories [OF assms(1)] by (auto simp add: plot_def)
  have panels: "plot_panels s [0..<length axs] = Inl e"
    if "axs \<noteq> []" and "plot_panel s 0 = Inl e" for axs :: "panel list" and e
  proof -
    from that(1) have "[0..<length axs] = 0 # [1..<length axs]" by (simp add: upt_conv_Cons)
    with that(2) show ?thesis by simp
  qed
  have fails: "\<exists>e. plot s = Inl e"
  proof (cases ?fig)
    case (Inl e)
    with unfold show ?thesis by simp
  next
    case (Inr axs)
    with assms(3) have ne: "axs \<noteq> []"
      by (auto simp add: subplots_def split: option.splits if_splits)
    from plot_panel_no_validation_fails [OF assms(2,1)] obtain e where "plot_panel s 0 = Inl e"
      by blast
    from panels [OF ne this] unfold Inr show ?thesis by simp
  qed
  have specific: "plot s = Inl (ValueError ''min() arg is an empty sequence'')"
    if all: "list_all (\<lambda>m. m \<noteq> []) (train_metrics s)"
  proof -
    from all tm have tm0: "tm0 \<noteq> []" by simp
    from column_all_nonempty [OF all] obtain c where c: "column 0 (train_metrics s) = Inr c"
      by blast
    from column_length [OF c] assms(1) have "c \<noteq> []" by auto
    from plot_panel_no_validation [OF assms(2) c this]
    have p0: "plot_panel s 0 = Inl (ValueError ''min() arg is an empty sequence'')" .
    obtain axs where fig: "?fig = Inr axs" and ne: "axs \<noteq> []"
      using assms(3) tm0 by (cases "axes s") (auto simp add: subplots_def)
    from panels [OF ne p0] unfold fig show ?thesis by simp
  qed
  from fails plot_not_no_records [OF assms(1)] specific show ?thesis by auto
qed

theorem plot_fails_without_validation_witness:
  "plot ((example_begin [example_accuracy] False)\<lparr> histories := Some ([[1 / 2], [3 / 4]], []) \<rparr>)
     = Inl (ValueError ''min() arg is an empty sequence'')"
  using plot_fails_without_validation
    [of "(example_begin [example_accuracy] False)\<lparr> histories := Some ([[1 / 2], [3 / 4]], []) \<rparr>"]
  by (simp add: ex_defs)

subsection \<open>Accessors\<close>

text \<open>
  Claim C9, as the code has it. The histories exist from \<^verbatim>\<open>on_train_begin\<close> on. When
  they exist, \<^verbatim>\<open>last_train_metrics\<close> and \<^verbatim>\<open>last_valid_metrics\<close> raise \<^verbatim>\<open>IndexError\<close> on an
  empty history and return the vector appended last to a non-empty one; when they do
  not exist yet, both raise \<^verbatim>\<open>AttributeError\<close>.
\<close>

theorem last_metrics_after_train_begin:
  "(histories s \<noteq> None \<and> train_metrics s = [] \<longrightarrow> last_train_metrics s = Inl IndexError)
   \<and> (histories s \<noteq> None \<and> valid_metrics s = [] \<longrightarrow> last_valid_metrics s = Inl IndexError)
   \<and> (train_metrics s = h @ [v] \<longrightarrow> last_train_metrics s = Inr v)
   \<and> (valid_metrics s = g @ [w] \<longrightarrow> last_valid_metrics s = Inr w)
   \<and> (histories s = None \<longrightarrow>
        last_train_metrics s = Inl AttributeError \<and> last_valid_metrics s = Inl AttributeError)"
  by (auto simp add: last_train_metrics_def last_valid_metrics_def train_metrics_def
      valid_metrics_def)

theorem last_metrics_after_train_begin_witness:
  "last_train_metrics (example_begin [example_accuracy] True) = Inl IndexError
   \<and> last_valid_metrics (example_begin [example_accuracy] True) = Inl IndexError
   \<and> last_train_metrics
        (projr (example_run [example_accuracy] True [FloatStat (Finite 0.5), FloatStat (Finite 0.75)]))
       = Inr [1 / 2]
   \<and> last_valid_metrics
        (projr (example_run [example_accuracy] True [FloatStat (Finite 0.5), FloatStat (Finite 0.75)]))
       = Inr [FloatStat (Finite 0.75)]
   \<and> last_train_metrics (new_recorder (Some 2) False False :: real list recorder)
       = Inl AttributeError"
  using last_metrics_after_train_begin [of "example_begin [example_accuracy] True" "[]" "[]" "[]" "[]"]
    last_metrics_after_train_begin
      [of "projr (example_run [example_accuracy] True [FloatStat (Finite 0.5), FloatStat (Finite 0.75)])"
          "[]" "[1 / 2]" "[]" "[FloatStat (Finite 0.75)]"]
    last_metrics_after_train_begin
      [of "new_recorder (Some 2) False False :: real list recorder" "[]" "[]" "[]" "[]"]
  by (simp add: ex_defs)

text \<open>
  The claim as stated fails on a recorder that has been constructed but has not seen
  \<^verbatim>\<open>on_train_begin\<close>: no epoch has completed, and the accessors raise \<^verbatim>\<open>AttributeError\<close>,
  not an out-of-range error.
\<close>

theorem last_metrics_counterexample:
  "TrainMetricsRecorder_init None False False
     = Inr (new_recorder None False False :: real list recorder)
   \<and> last_train_metrics (new_recorder None False False :: real list recorder)
       = Inl AttributeError
   \<and> last_valid_metrics (new_recorder None False False :: real list recorder)
       = Inl AttributeError"
  by (simp add: TrainMetricsRecorder_init_def truthy_def last_train_metrics_def
      last_valid_metrics_def new_recorder_def)

end
